theory Spec2Isabelle
  imports Complex_Main "HOL-Library.Multiset"
begin

section \<open>Data model\<close>

text \<open>
  One dictionary appended to \<open>all_txs\<close> by \<open>fetch_recent_txs\<close> (app.py, lines 69-76).
  \<open>to_address\<close> is \<open>tx.get('to')\<close>: Python's \<open>None\<close> for a contract creation.
  \<open>gasPrice\<close> and \<open>value\<close> are finite non-negative floats (an integer divided by 1e9 or
  1e18). A float is modelled as the real number it denotes: comparing two finite floats
  is comparing those reals. Float arithmetic rounds, so it is not the arithmetic of the
  reals: every product, quotient, median and mean the code computes is a parameter of
  the model (see \<open>libs\<close>).
\<close>

record tx_dict =
  d_tx_hash :: string
  d_from_address :: string
  d_to_address :: "string option"
  d_gasPrice :: real
  d_value :: real
  d_blockNumber :: int

text \<open>
  What a cell of the \<open>to_address\<close> column holds once \<open>pd.DataFrame(all_txs)\<close> (line 93)
  has built the frame: a string, \<open>None\<close>, or the float NaN that a string column uses for
  a missing value.
\<close>

datatype cell = Str string | PyNone | PyNaN

text \<open>One row of the frame, as \<open>txs.iloc[i]\<close> reads it.\<close>

record tx =
  tx_hash :: string
  from_address :: string
  to_address :: cell
  gasPrice :: real
  tx_value :: real
  blockNumber :: int

text \<open>
  Python's \<open>==\<close> on two cells: strings compare by content, \<open>None == None\<close> holds, and
  NaN equals nothing, itself included.
\<close>

fun py_eq :: "cell \<Rightarrow> cell \<Rightarrow> bool" where
  "py_eq (Str a) (Str b) = (a = b)"
| "py_eq PyNone PyNone = True"
| "py_eq _ _ = False"

text \<open>One record appended by \<open>detect_sandwich\<close> (app.py, lines 102-111).\<close>

record sandwich =
  block :: int
  victim_hash :: string
  front_hash :: string
  back_hash :: string
  sw_to_address :: cell
  front_gas :: real
  victim_gas :: real
  back_gas :: real

section \<open>detect\_sandwich\<close>

text \<open>
  The dictionary built at lines 102-111 from the window \<open>(prev, curr, nxt)\<close> (\<open>curr\<close> is
  written \<open>cur\<close>).
\<close>

definition sandwich_rec :: "tx \<Rightarrow> tx \<Rightarrow> tx \<Rightarrow> sandwich" where
  "sandwich_rec prev cur nxt =
     \<lparr>block = blockNumber prev,
      victim_hash = tx_hash cur,
      front_hash = tx_hash prev,
      back_hash = tx_hash nxt,
      sw_to_address = to_address prev,
      front_gas = gasPrice prev,
      victim_gas = gasPrice cur,
      back_gas = gasPrice nxt\<rparr>"

text \<open>
  The loop \<open>for i in range(1, len(txs)-1)\<close> with its accumulator \<open>recs\<close>. The bound is
  computed over the integers, as Python does: for an empty frame it is \<open>-1\<close> and the
  loop body never runs. Inside the loop \<open>i - 1\<close>, \<open>i\<close> and \<open>i + 1\<close> are valid positions.
\<close>

function sandwich_loop :: "tx list \<Rightarrow> nat \<Rightarrow> sandwich list \<Rightarrow> sandwich list" where
  "sandwich_loop txs i recs =
     (if int i < int (length txs) - 1 then
        (let prev = txs ! (i - 1); cur = txs ! i; nxt = txs ! (i + 1) in
         sandwich_loop txs (i + 1)
           (if py_eq (to_address prev) (to_address nxt) \<and>
               (gasPrice prev > gasPrice cur \<and> gasPrice cur < gasPrice nxt) \<and>
               (blockNumber prev = blockNumber cur \<and> blockNumber cur = blockNumber nxt)
            then recs @ [sandwich_rec prev cur nxt]
            else recs))
      else recs)"
  by pat_completeness auto
termination
  by (relation "measure (\<lambda>(txs, i, recs). length txs - i)") auto

declare sandwich_loop.simps [simp del]

definition detect_sandwich :: "tx list \<Rightarrow> sandwich list" where
  "detect_sandwich txs = sandwich_loop txs 1 []"

section \<open>Errors and the libraries\<close>

text \<open>
  The exceptions the detection code can let escape; none of its functions has a
  handler. A frame without rows that reaches a detector is the column-less
  \<open>pd.DataFrame([])\<close> of an empty fetch, on which selecting a column raises \<open>KeyError\<close>;
  a label array whose length differs from the frame's raises \<open>ValueError\<close> in boolean
  indexing and in column assignment; scikit-learn rejects an input with \<open>ValueError\<close>.
\<close>

datatype py_error = KeyError | ValueError

text \<open>The state of numpy's global random generator, the only ambient state a fit could use.\<close>

type_synonym rng = nat

type_synonym feats = "(real \<times> real) list"

text \<open>
  pandas, numpy, scikit-learn and the float unit are not part of the repository: what
  the code asks of them is a parameter of the model.
  \<^item> \<open>infer_string\<close>: whether pandas infers a string dtype for a column holding strings
    (the default from pandas 3 on; before, such a column is an object column);
  \<^item> \<open>float_mul\<close>, \<open>float_div\<close>: the product and the quotient of two floats, rounded;
  \<^item> \<open>Series_median\<close>, \<open>Series_mean\<close>: \<open>Series.median()\<close> and \<open>Series.mean()\<close> of a
    float column that is not empty;
  \<^item> \<open>argsort_quicksort\<close>: \<open>ndarray.argsort(kind='quicksort')\<close>, the sort that
    \<open>sort_values\<close> runs when no \<open>kind\<close> is given;
  \<^item> \<open>StandardScaler_fit_transform\<close> is \<open>StandardScaler().fit_transform\<close>;
  \<^item> \<open>IsolationForest_fit_predict c rs g X\<close> is
    \<open>IsolationForest(contamination=c, random_state=rs).fit_predict(X)\<close> run with the
    global generator in state \<open>g\<close>; it returns the labels and the generator's new state;
  \<^item> \<open>DBSCAN_fit_predict eps m X\<close> is \<open>DBSCAN(eps=eps, min_samples=m).fit_predict(X)\<close>.

  The scikit-learn calls return their value or the exception they raise.
\<close>

record libs =
  infer_string :: bool
  float_mul :: "real \<Rightarrow> real \<Rightarrow> real"
  float_div :: "real \<Rightarrow> real \<Rightarrow> real"
  Series_median :: "real list \<Rightarrow> real"
  Series_mean :: "real list \<Rightarrow> real"
  argsort_quicksort :: "real list \<Rightarrow> nat list"
  StandardScaler_fit_transform :: "feats \<Rightarrow> py_error + feats"
  IsolationForest_fit_predict ::
    "real \<Rightarrow> nat option \<Rightarrow> rng \<Rightarrow> feats \<Rightarrow> (py_error + int list) \<times> rng"
  DBSCAN_fit_predict :: "real \<Rightarrow> nat \<Rightarrow> feats \<Rightarrow> py_error + int list"

text \<open>
  What numpy documents for \<open>argsort\<close>: the result holds every position of the array
  once and reads the array in ascending order. With the default \<open>kind\<close> nothing is
  promised about the order of equal elements.
\<close>

definition argsort_contract :: "libs \<Rightarrow> bool" where
  "argsort_contract lib \<longleftrightarrow>
     (\<forall>ks. mset (argsort_quicksort lib ks) = mset [0..<length ks] \<and>
           sorted (map (\<lambda>j. ks ! j) (argsort_quicksort lib ks)))"

text \<open>Multiplying a float by 1 is exact in IEEE arithmetic.\<close>

definition mul_one_exact :: "libs \<Rightarrow> bool" where
  "mul_one_exact lib \<longleftrightarrow> (\<forall>x. float_mul lib x 1 = x)"

text \<open>
  What scikit-learn documents for an integer \<open>random_state\<close>: the fit draws from a
  generator of its own seeded with that integer, so its outcome does not depend on the
  global generator, which is left as it was.
\<close>

definition seeded :: "libs \<Rightarrow> bool" where
  "seeded lib \<longleftrightarrow>
     (\<forall>c s g g' X. fst (IsolationForest_fit_predict lib c (Some s) g X) =
                     fst (IsolationForest_fit_predict lib c (Some s) g' X) \<and>
                   snd (IsolationForest_fit_predict lib c (Some s) g X) = g)"

section \<open>Building the frame\<close>

text \<open>
  \<open>pd.DataFrame(all_txs)\<close>, the last line of \<open>fetch_recent_txs\<close>. Every column is stored
  as it comes but \<open>to_address\<close>: when pandas infers a string dtype and at least one
  dictionary has an address, the column becomes a string column and holds NaN where
  the dictionary had \<open>None\<close>; otherwise it is an object column and \<open>None\<close> stays.
\<close>

definition DataFrame :: "libs \<Rightarrow> tx_dict list \<Rightarrow> tx list" where
  "DataFrame lib all_txs =
     (let string_column = infer_string lib \<and> list_ex (\<lambda>d. d_to_address d \<noteq> None) all_txs
      in map (\<lambda>d. \<lparr>tx_hash = d_tx_hash d,
                   from_address = d_from_address d,
                   to_address =
                     (case d_to_address d of
                        Some s \<Rightarrow> Str s
                      | None \<Rightarrow> if string_column then PyNaN else PyNone),
                   gasPrice = d_gasPrice d,
                   tx_value = d_value d,
                   blockNumber = d_blockNumber d\<rparr>)
           all_txs)"

section \<open>The high-gas computation\<close>

definition HIGH_GAS_MULTIPLIER :: real where
  "HIGH_GAS_MULTIPLIER = 3"

text \<open>
  \<open>sort_values(by='gasPrice', ascending=False)\<close> on one column: pandas reverses the
  column and its positions, sorts the reversed column ascending with numpy's
  \<open>argsort\<close>, reads the positions through the result, reverses again
  (\<open>pandas.core.sorting.nargsort\<close>) and takes the rows in that order.
\<close>

definition nargsort_descending :: "libs \<Rightarrow> real list \<Rightarrow> nat list" where
  "nargsort_descending lib items =
     (let idx = [0..<length items];
          non_nans = rev items;
          non_nan_idx = rev idx;
          indexer = map (\<lambda>j. non_nan_idx ! j) (argsort_quicksort lib non_nans)
      in rev indexer)"

definition sort_values_desc :: "libs \<Rightarrow> tx list \<Rightarrow> tx list" where
  "sort_values_desc lib df = map (\<lambda>i. df ! i) (nargsort_descending lib (map gasPrice df))"

text \<open>
  Lines 151-153 of \<open>run_dashboard\<close>, with the multiplier as an argument:
  \<open>median_gas\<close>, \<open>threshold\<close> and \<open>high_gas_df\<close>. On the column-less frame of an empty
  fetch \<open>txs['gasPrice']\<close> raises \<open>KeyError\<close>.
\<close>

definition high_gas :: "libs \<Rightarrow> real \<Rightarrow> tx list \<Rightarrow> py_error + (real \<times> real \<times> tx list)" where
  "high_gas lib multiplier txs =
     (if txs = [] then Inl KeyError
      else
        (let median_gas = Series_median lib (map gasPrice txs);
             threshold = float_mul lib median_gas multiplier;
             high_gas_df = sort_values_desc lib (filter (\<lambda>t. gasPrice t \<ge> threshold) txs)
         in Inr (median_gas, threshold, high_gas_df)))"

section \<open>detect\_anomalies\<close>

text \<open>
  Lines 114-119. The function only reads \<open>txs\<close>; \<open>txs[labels == -1]\<close> builds a new frame
  of the rows whose label is \<open>-1\<close>, in frame order. The result is what the call returns
  or raises, together with the global generator's state after it. \<open>anomaly_labels\<close> is
  the array \<open>labels\<close> of lines 115-118 on its own: the scaler runs first, then the fit.
\<close>

definition anomaly_labels :: "libs \<Rightarrow> rng \<Rightarrow> tx list \<Rightarrow> (py_error + int list) \<times> rng" where
  "anomaly_labels lib g txs =
     (case StandardScaler_fit_transform lib (map (\<lambda>t. (gasPrice t, tx_value t)) txs) of
        Inl e \<Rightarrow> (Inl e, g)
      | Inr X \<Rightarrow> IsolationForest_fit_predict lib (1 / 100) (Some 42) g X)"

definition detect_anomalies :: "libs \<Rightarrow> rng \<Rightarrow> tx list \<Rightarrow> (py_error + tx list) \<times> rng" where
  "detect_anomalies lib g txs =
     (if txs = [] then (Inl KeyError, g)
      else
        (let feats = map (\<lambda>t. (gasPrice t, tx_value t)) txs in
         case StandardScaler_fit_transform lib feats of
           Inl e \<Rightarrow> (Inl e, g)
         | Inr X \<Rightarrow>
             (case IsolationForest_fit_predict lib (1 / 100) (Some 42) g X of
                (Inl e, g') \<Rightarrow> (Inl e, g')
              | (Inr labels, g') \<Rightarrow>
                  if length labels \<noteq> length txs then (Inl ValueError, g')
                  else (Inr (map fst (filter (\<lambda>(t, l). l = - 1) (zip txs labels))), g'))))"

section \<open>dbscan\_cluster\<close>

text \<open>
  \<open>dbscan_cluster\<close> assigns to \<open>txs['cluster']\<close>, so its argument is modelled as the
  frame object: the rows and the \<open>cluster\<close> column, absent (\<open>None\<close>) in a fetched batch.
\<close>

record frame =
  rows :: "tx list"
  cluster :: "int list option"

text \<open>Boolean-mask indexing \<open>df[mask]\<close>: a new frame of the rows where the mask holds.\<close>

definition bool_index :: "frame \<Rightarrow> bool list \<Rightarrow> frame" where
  "bool_index df msk =
     \<lparr>rows = map fst (filter snd (zip (rows df) msk)),
      cluster = map_option (\<lambda>c. map fst (filter snd (zip c msk))) (cluster df)\<rparr>"

text \<open>The label array \<open>lbls\<close> of lines 122-125.\<close>

definition dbscan_labels :: "libs \<Rightarrow> tx list \<Rightarrow> py_error + int list" where
  "dbscan_labels lib txs =
     (case StandardScaler_fit_transform lib
             (map (\<lambda>t. (gasPrice t, real_of_int (blockNumber t))) txs) of
        Inl e \<Rightarrow> Inl e
      | Inr X \<Rightarrow> DBSCAN_fit_predict lib (1 / 2) 3 X)"

text \<open>
  Lines 121-127. The result is the returned frame together with the caller's frame as
  the call leaves it.
\<close>

definition dbscan_cluster :: "libs \<Rightarrow> frame \<Rightarrow> py_error + (frame \<times> frame)" where
  "dbscan_cluster lib txs =
     (if rows txs = [] then Inl KeyError
      else
        (let feats = map (\<lambda>t. (gasPrice t, real_of_int (blockNumber t))) (rows txs) in
         case StandardScaler_fit_transform lib feats of
           Inl e \<Rightarrow> Inl e
         | Inr X \<Rightarrow>
             (case DBSCAN_fit_predict lib (1 / 2) 3 X of
                Inl e \<Rightarrow> Inl e
              | Inr lbls \<Rightarrow>
                  if length lbls \<noteq> length (rows txs) then Inl ValueError
                  else
                    (let txs' = txs\<lparr>cluster := Some lbls\<rparr>
                     in Inr (bool_index txs' (map (\<lambda>l. l \<noteq> - 1) lbls), txs')))))"

section \<open>run\_dashboard\<close>

text \<open>
  What \<open>run_dashboard\<close> puts on the page after the fetch, one value per Streamlit call
  of lines 157-207. Formatted text is kept as the data it is formatted from.
\<close>

datatype table = Txs "tx list" | Sandwiches "sandwich list"

datatype ui =
    Markdown_summary nat nat nat
  | Subheader string
  | Caption real real real
  | Dataframe table
  | Info string
  | Markdown_sandwich sandwich
  | Markdown_anomaly tx "real option"
  | Vega_lite_chart frame real

record outcome =
  rendered :: "ui list"
  raised :: "py_error option"
  txs_after :: frame
  rng_after :: rng

text \<open>Lines 168-176.\<close>

definition render_sandwiches :: "sandwich list \<Rightarrow> ui list" where
  "render_sandwiches sandwiches =
     Subheader ''2. Detected Sandwich Attacks'' #
     (if sandwiches = [] then [Info ''No sandwich attacks found in this dataset.'']
      else Dataframe (Sandwiches sandwiches) # map Markdown_sandwich sandwiches)"

text \<open>
  Lines 178-188; \<open>ratio\<close> is \<open>np.nan\<close> (\<open>None\<close>) when the mean gas price is zero.
\<close>

definition render_anomalies :: "libs \<Rightarrow> tx list \<Rightarrow> tx list \<Rightarrow> ui list" where
  "render_anomalies lib txs anomalies =
     Subheader ''3. Suspicious Transactions'' #
     (if anomalies = [] then [Info ''No anomalies detected.'']
      else
        (let avg_gas = Series_mean lib (map gasPrice txs)
         in Dataframe (Txs anomalies) #
            map (\<lambda>a. Markdown_anomaly a
                        (if avg_gas \<noteq> 0 then Some (float_div lib (gasPrice a) avg_gas)
                         else None))
              anomalies))"

text \<open>Lines 192-207, once \<open>dbscan_cluster\<close> has returned \<open>clusters\<close>.\<close>

definition render_clusters :: "frame \<Rightarrow> real \<Rightarrow> ui list" where
  "render_clusters clusters threshold =
     (if rows clusters = [] then [Info ''No clusters detected.'']
      else [Vega_lite_chart clusters
              (max (Max (set (map gasPrice (rows clusters)))) threshold)])"

text \<open>
  Lines 148-207, from the frame \<open>txs\<close> that \<open>fetch_recent_txs\<close> returned (the page title,
  the introduction and the fetch itself come before and are not modelled). The outcome
  is the page content in order, the exception that ended the run if any, the frame
  \<open>txs\<close> as the run leaves it, and the global generator's state.
\<close>

definition run_dashboard :: "libs \<Rightarrow> rng \<Rightarrow> tx list \<Rightarrow> outcome" where
  "run_dashboard lib g txs =
     (let df = \<lparr>rows = txs, cluster = None\<rparr> in
      if txs = [] then \<lparr>rendered = [], raised = None, txs_after = df, rng_after = g\<rparr>
      else
        (case high_gas lib HIGH_GAS_MULTIPLIER txs of
           Inl e \<Rightarrow> \<lparr>rendered = [], raised = Some e, txs_after = df, rng_after = g\<rparr>
         | Inr (median_gas, threshold, high_gas_df) \<Rightarrow>
             (let sandwiches = detect_sandwich txs in
              case detect_anomalies lib g txs of
                (Inl e, g') \<Rightarrow>
                  \<lparr>rendered = [], raised = Some e, txs_after = df, rng_after = g'\<rparr>
              | (Inr anomalies, g') \<Rightarrow>
                  (let page =
                         [Markdown_summary (length high_gas_df) (length sandwiches)
                            (length anomalies),
                          Subheader ''1. High-Gas Transactions'',
                          Caption HIGH_GAS_MULTIPLIER median_gas threshold,
                          Dataframe (Txs high_gas_df)] @
                         render_sandwiches sandwiches @
                         render_anomalies lib txs anomalies @
                         [Subheader ''4. MEV Bot Clusters'']
                   in case dbscan_cluster lib df of
                        Inl e \<Rightarrow>
                          \<lparr>rendered = page, raised = Some e, txs_after = df,
                           rng_after = g'\<rparr>
                      | Inr (clusters, df') \<Rightarrow>
                          \<lparr>rendered = page @ render_clusters clusters threshold,
                           raised = None, txs_after = df', rng_after = g'\<rparr>))))"

section \<open>Test fixtures\<close>

text \<open>
  The median as the reals define it, the stand-in for \<open>Series.median()\<close>; it is the
  value pandas returns whenever the mean of the two middle values is a float.
\<close>

definition toy_median :: "real list \<Rightarrow> real" where
  "toy_median xs =
     (let s = sort xs; n = length s in
      if n = 0 then 0
      else if odd n then s ! (n div 2)
      else (s ! (n div 2 - 1) + s ! (n div 2)) / 2)"

text \<open>A stable ascending argsort: equal elements keep their order.\<close>

definition stable_argsort :: "real list \<Rightarrow> nat list" where
  "stable_argsort ks = map snd (sort_key fst (zip ks [0..<length ks]))"

text \<open>
  A small stand-in for the libraries, used to run the model on concrete batches:
  string inference on, exact products, quotients, medians and means, a stable argsort,
  no rescaling, a forest that labels a row an outlier when its first feature exceeds
  100 (and that advances the global generator only when it is given no seed), and a
  clusterer that calls every row noise when there are fewer rows than \<open>min_samples\<close>
  and otherwise puts the rows whose first feature is at least 5 into cluster 0 and
  calls the rest noise.
\<close>

definition toy_libs :: libs where
  "toy_libs =
     \<lparr>infer_string = True,
      float_mul = (\<lambda>x y. x * y),
      float_div = (\<lambda>x y. x / y),
      Series_median = toy_median,
      Series_mean = (\<lambda>xs. sum_list xs / real (length xs)),
      argsort_quicksort = stable_argsort,
      StandardScaler_fit_transform = (\<lambda>X. Inr X),
      IsolationForest_fit_predict =
        (\<lambda>c rs g X. (Inr (map (\<lambda>(a, b). if a > 100 then - 1 else 1) X),
                      case rs of None \<Rightarrow> Suc g | Some s \<Rightarrow> g)),
      DBSCAN_fit_predict =
        (\<lambda>eps m X. Inr (if length X < m then map (\<lambda>p. - 1) X
                         else map (\<lambda>(a, b). if a \<ge> 5 then 0 else - 1) X))\<rparr>"

text \<open>The same stand-in without string inference: the frame of pandas before version 3.\<close>

definition object_libs :: libs where
  "object_libs = toy_libs\<lparr>infer_string := False\<rparr>"

definition mk_tx :: "string \<Rightarrow> cell \<Rightarrow> real \<Rightarrow> int \<Rightarrow> tx" where
  "mk_tx h to g b =
     \<lparr>tx_hash = h, from_address = ''0xf0'', to_address = to, gasPrice = g,
      tx_value = 0, blockNumber = b\<rparr>"

definition mk_dict :: "string \<Rightarrow> string option \<Rightarrow> real \<Rightarrow> int \<Rightarrow> tx_dict" where
  "mk_dict h to g b =
     \<lparr>d_tx_hash = h, d_from_address = ''0xf0'', d_to_address = to, d_gasPrice = g,
      d_value = 0, d_blockNumber = b\<rparr>"

text \<open>The batch of the specification's example and its two variations.\<close>

definition txA :: tx where
  "txA = \<lparr>tx_hash = ''0xa'', from_address = ''0xf1'', to_address = Str ''X'',
          gasPrice = 5, tx_value = 0, blockNumber = 1\<rparr>"

definition txB :: tx where
  "txB = \<lparr>tx_hash = ''0xb'', from_address = ''0xf2'', to_address = Str ''Y'',
          gasPrice = 2, tx_value = 1, blockNumber = 1\<rparr>"

definition txC :: tx where
  "txC = \<lparr>tx_hash = ''0xc'', from_address = ''0xf1'', to_address = Str ''X'',
          gasPrice = 6, tx_value = 0, blockNumber = 1\<rparr>"

text \<open>Two rows with the same gas price, the same value and the same block.\<close>

definition txP :: tx where
  "txP = mk_tx ''0xp'' (Str ''X'') 5 1"

definition txQ :: tx where
  "txQ = mk_tx ''0xq'' (Str ''Y'') 5 1"

text \<open>
  A batch whose second row is a sandwich victim (gas 150 between two rows of gas 200
  sent to the same address in the same block) and is also at or above three times the
  median gas price (the median is 1).
\<close>

definition batch7 :: "tx list" where
  "batch7 =
     [mk_tx ''0x1'' (Str ''X'') 200 7, mk_tx ''0x2'' (Str ''Y'') 150 7,
      mk_tx ''0x3'' (Str ''X'') 200 7, mk_tx ''0x4'' (Str ''W'') 1 7,
      mk_tx ''0x5'' (Str ''V'') 1 7, mk_tx ''0x6'' (Str ''U'') 1 7,
      mk_tx ''0x7'' (Str ''T'') 1 7]"

text \<open>
  Fetched dictionaries: two contract creations around a cheaper transaction that has
  an address, all in one block; and three contract creations.
\<close>

definition creation_dicts :: "tx_dict list" where
  "creation_dicts =
     [mk_dict ''0xc1'' None 8 3, mk_dict ''0xc2'' (Some ''Y'') 4 3, mk_dict ''0xc3'' None 7 3]"

definition creations_only :: "tx_dict list" where
  "creations_only =
     [mk_dict ''0xc1'' None 8 3, mk_dict ''0xc2'' None 4 3, mk_dict ''0xc3'' None 7 3]"

text \<open>The example batch as a fetched frame.\<close>

definition abc_frame :: frame where
  "abc_frame = \<lparr>rows = [txA, txB, txC], cluster = None\<rparr>"

text \<open>The example batch with an expensive transaction in the middle.\<close>

definition outlier_batch :: "tx list" where
  "outlier_batch = [txA, mk_tx ''0xd'' (Str ''X'') 250 1, txC]"

section \<open>numpy's quicksort\<close>

text \<open>
  The argsort numpy runs for \<open>kind='quicksort'\<close> on a float array when no vectorised
  sort is dispatched: \<open>aquicksort_\<close> of \<open>numpy/_core/src/npysort/quicksort.cpp\<close>, an
  introsort on the array \<open>tosort\<close> of positions (here \<open>a\<close>) that compares the values
  \<open>v\<close> behind them. \<open>pl\<close>, \<open>pr\<close>, \<open>pm\<close>, \<open>pi\<close>, \<open>pj\<close> (written \<open>p_i\<close>, \<open>p_j\<close>) are the C
  pointers, as offsets into \<open>tosort\<close>.
\<close>

text \<open>\<open>npy_get_msb\<close>: the position of the highest set bit.\<close>

fun npy_get_msb :: "nat \<Rightarrow> nat" where
  "npy_get_msb n = (if n < 2 then 0 else Suc (npy_get_msb (n div 2)))"

declare npy_get_msb.simps [simp del]

definition INTP_SWAP :: "nat list \<Rightarrow> nat \<Rightarrow> nat \<Rightarrow> nat list" where
  "INTP_SWAP a i j = a[i := a ! j, j := a ! i]"

text \<open>
  \<open>do { ++pi; } while (v[*pi] < vp)\<close> and \<open>do { --pj; } while (vp < v[*pj])\<close>, entered
  after the first step. The C loops are unguarded: the first stops at the pivot parked
  at \<open>pr - 1\<close> at the latest, the second at \<open>pl\<close>, whose value the median of three left
  no greater than the pivot. The bounds \<open>hi\<close> and \<open>lo\<close> say so.
\<close>

function scan_up :: "real list \<Rightarrow> nat list \<Rightarrow> real \<Rightarrow> nat \<Rightarrow> nat \<Rightarrow> nat" where
  "scan_up v a vp hi i =
     (if i < hi \<and> v ! (a ! i) < vp then scan_up v a vp hi (i + 1) else i)"
  by pat_completeness auto
termination
  by (relation "measure (\<lambda>(v, a, vp, hi, i). hi - i)") auto

declare scan_up.simps [simp del]

function scan_down :: "real list \<Rightarrow> nat list \<Rightarrow> real \<Rightarrow> nat \<Rightarrow> nat \<Rightarrow> nat" where
  "scan_down v a vp lo j =
     (if lo < j \<and> vp < v ! (a ! j) then scan_down v a vp lo (j - 1) else j)"
  by pat_completeness auto
termination
  by (relation "measure (\<lambda>(v, a, vp, lo, j). j)") auto

declare scan_down.simps [simp del]

text \<open>
  The \<open>for (;;)\<close> loop of the partition. It runs at most once per element between
  \<open>pl\<close> and \<open>pr\<close>; the first argument counts the rounds left.
\<close>

fun partition_loop ::
  "nat \<Rightarrow> real list \<Rightarrow> nat list \<Rightarrow> real \<Rightarrow> nat \<Rightarrow> nat \<Rightarrow> nat \<Rightarrow> nat \<Rightarrow> (nat list \<times> nat) option"
where
  "partition_loop 0 v a vp pl pr p_i p_j = None"
| "partition_loop (Suc rounds) v a vp pl pr p_i p_j =
     (let p_i' = scan_up v a vp (pr - 1) (p_i + 1);
          p_j' = scan_down v a vp pl (p_j - 1)
      in if p_i' \<ge> p_j' then Some (a, p_i')
         else partition_loop rounds v (INTP_SWAP a p_i' p_j') vp pl pr p_i' p_j')"

text \<open>
  One partition of \<open>tosort[pl..pr]\<close>: median of three, the pivot parked at \<open>pr - 1\<close>,
  the loop, the pivot put in place. The result is the array and the pivot's place.
\<close>

definition partition_pass :: "real list \<Rightarrow> nat list \<Rightarrow> nat \<Rightarrow> nat \<Rightarrow> (nat list \<times> nat) option" where
  "partition_pass v a pl pr =
     (let pm = pl + (pr - pl) div 2;
          a1 = (if v ! (a ! pm) < v ! (a ! pl) then INTP_SWAP a pm pl else a);
          a2 = (if v ! (a1 ! pr) < v ! (a1 ! pm) then INTP_SWAP a1 pr pm else a1);
          a3 = (if v ! (a2 ! pm) < v ! (a2 ! pl) then INTP_SWAP a2 pm pl else a2);
          vp = v ! (a3 ! pm);
          a4 = INTP_SWAP a3 pm (pr - 1)
      in case partition_loop (pr - pl) v a4 vp pl pr pl (pr - 1) of
           None \<Rightarrow> None
         | Some (a5, p_i) \<Rightarrow> Some (INTP_SWAP a5 p_i (pr - 1), p_i))"

text \<open>The insertion sort of \<open>tosort[pl..pr]\<close>: the inner \<open>while\<close>, then the \<open>for\<close>.\<close>

function ins_shift :: "real list \<Rightarrow> nat list \<Rightarrow> nat \<Rightarrow> real \<Rightarrow> nat \<Rightarrow> nat list \<times> nat" where
  "ins_shift v a pl vp p_j =
     (if pl < p_j \<and> vp < v ! (a ! (p_j - 1))
      then ins_shift v (a[p_j := a ! (p_j - 1)]) pl vp (p_j - 1)
      else (a, p_j))"
  by pat_completeness auto
termination
  by (relation "measure (\<lambda>(v, a, pl, vp, p_j). p_j)") auto

declare ins_shift.simps [simp del]

function insertion_sort :: "real list \<Rightarrow> nat list \<Rightarrow> nat \<Rightarrow> nat \<Rightarrow> nat \<Rightarrow> nat list" where
  "insertion_sort v a pl pr p_i =
     (if p_i \<le> pr then
        (case ins_shift v a pl (v ! (a ! p_i)) p_i of
           (a', p_j) \<Rightarrow> insertion_sort v (a'[p_j := a ! p_i]) pl pr (p_i + 1))
      else a)"
  by pat_completeness auto
termination
  by (relation "measure (\<lambda>(v, a, pl, pr, p_i). Suc pr - p_i)") auto

declare insertion_sort.simps [simp del]

text \<open>
  The outer \<open>while (1)\<close> with its stack of pending ranges and depths. A range of more
  than 17 positions (\<open>pr - pl > SMALL_QUICKSORT\<close>, 16) is partitioned, the larger part
  pushed and the smaller taken next; a shorter range is insertion-sorted and the next
  range popped. \<open>at_head\<close> says that the loop is at its head, where the depth is tested:
  below zero numpy falls back to a heapsort, which is not modelled (\<open>None\<close>). The
  first argument bounds the number of rounds.
\<close>

fun aquicksort_loop ::
  "nat \<Rightarrow> bool \<Rightarrow> real list \<Rightarrow> nat list \<Rightarrow> nat \<Rightarrow> nat \<Rightarrow> int \<Rightarrow> (nat \<times> nat \<times> int) list \<Rightarrow>
   nat list option"
where
  "aquicksort_loop 0 at_head v a pl pr cdepth stack = None"
| "aquicksort_loop (Suc rounds) at_head v a pl pr cdepth stack =
     (if at_head \<and> cdepth < 0 then None
      else if pl + 16 < pr then
        (case partition_pass v a pl pr of
           None \<Rightarrow> None
         | Some (a', p_i) \<Rightarrow>
             if p_i - pl < pr - p_i
             then aquicksort_loop rounds False v a' pl (p_i - 1) (cdepth - 1)
                    ((p_i + 1, pr, cdepth - 1) # stack)
             else aquicksort_loop rounds False v a' (p_i + 1) pr (cdepth - 1)
                    ((pl, p_i - 1, cdepth - 1) # stack))
      else
        (let a' = insertion_sort v a pl pr (pl + 1) in
         case stack of
           [] \<Rightarrow> Some a'
         | (pl', pr', cdepth') # stack' \<Rightarrow>
             aquicksort_loop rounds True v a' pl' pr' cdepth' stack'))"

definition aquicksort :: "real list \<Rightarrow> nat list option" where
  "aquicksort v =
     (let num = length v in
      if num = 0 then Some []
      else aquicksort_loop (2 * num + 2) True v [0..<num] 0 (num - 1)
             (2 * int (npy_get_msb num)) [])"

text \<open>
  The stand-in with numpy's quicksort in the place of the stable argsort (and the
  stable argsort where the heapsort would run).
\<close>

definition numpy_libs :: libs where
  "numpy_libs =
     toy_libs\<lparr>argsort_quicksort :=
       (\<lambda>ks. case aquicksort ks of Some a \<Rightarrow> a | None \<Rightarrow> stable_argsort ks)\<rparr>"

text \<open>Eighteen transactions of one block that all bid the same gas price.\<close>

definition ties18 :: "tx list" where
  "ties18 =
     [mk_tx ''t00'' (Str ''X'') 5 9, mk_tx ''t01'' (Str ''X'') 5 9,
      mk_tx ''t02'' (Str ''X'') 5 9, mk_tx ''t03'' (Str ''X'') 5 9,
      mk_tx ''t04'' (Str ''X'') 5 9, mk_tx ''t05'' (Str ''X'') 5 9,
      mk_tx ''t06'' (Str ''X'') 5 9, mk_tx ''t07'' (Str ''X'') 5 9,
      mk_tx ''t08'' (Str ''X'') 5 9, mk_tx ''t09'' (Str ''X'') 5 9,
      mk_tx ''t10'' (Str ''X'') 5 9, mk_tx ''t11'' (Str ''X'') 5 9,
      mk_tx ''t12'' (Str ''X'') 5 9, mk_tx ''t13'' (Str ''X'') 5 9,
      mk_tx ''t14'' (Str ''X'') 5 9, mk_tx ''t15'' (Str ''X'') 5 9,
      mk_tx ''t16'' (Str ''X'') 5 9, mk_tx ''t17'' (Str ''X'') 5 9]"

section \<open>The sandwich scan\<close>

lemma sandwich_loop_end:
  "\<not> int i < int (length txs) - 1 \<Longrightarrow> sandwich_loop txs i recs = recs"
  by (subst sandwich_loop.simps) simp

lemma sandwich_loop_step:
  "int i < int (length txs) - 1 \<Longrightarrow>
   sandwich_loop txs i recs =
     sandwich_loop txs (Suc i)
       (if py_eq (to_address (txs ! (i - 1))) (to_address (txs ! Suc i)) \<and>
           (gasPrice (txs ! (i - 1)) > gasPrice (txs ! i) \<and>
            gasPrice (txs ! i) < gasPrice (txs ! Suc i)) \<and>
           (blockNumber (txs ! (i - 1)) = blockNumber (txs ! i) \<and>
            blockNumber (txs ! i) = blockNumber (txs ! Suc i))
        then recs @ [sandwich_rec (txs ! (i - 1)) (txs ! i) (txs ! Suc i)]
        else recs)"
  by (subst sandwich_loop.simps) (simp add: Let_def)

lemma sandwich_loop_scan:
  "sandwich_loop txs i recs =
     recs @ map (\<lambda>k. sandwich_rec (txs ! (k - 1)) (txs ! k) (txs ! Suc k))
              (filter (\<lambda>k. py_eq (to_address (txs ! (k - 1))) (to_address (txs ! Suc k)) \<and>
                     (gasPrice (txs ! (k - 1)) > gasPrice (txs ! k) \<and>
                      gasPrice (txs ! k) < gasPrice (txs ! Suc k)) \<and>
                     (blockNumber (txs ! (k - 1)) = blockNumber (txs ! k) \<and>
                      blockNumber (txs ! k) = blockNumber (txs ! Suc k)))
                 [i..<length txs - 1])"
proof (induction "length txs - i" arbitrary: i recs)
  case 0
  then have "\<not> int i < int (length txs) - 1" by simp
  moreover from 0 have "[i..<length txs - 1] = []" by simp
  ultimately show ?case by (simp add: sandwich_loop_end)
next
  case (Suc n)
  show ?case
  proof (cases "int i < int (length txs) - 1")
    case False
    then have "[i..<length txs - 1] = []" by auto
    with False show ?thesis by (simp add: sandwich_loop_end)
  next
    case True
    then have lt: "i < length txs - 1" by linarith
    from Suc.hyps(2) have n: "n = length txs - Suc i" by simp
    have up: "[i..<length txs - 1] = i # [Suc i..<length txs - 1]"
      using lt by (simp add: upt_conv_Cons)
    show ?thesis
      by (subst sandwich_loop_step [OF True], subst Suc.hyps(1) [OF n], subst up) simp
  qed
qed

lemma detect_sandwich_scan:
  "detect_sandwich xs =
     map (\<lambda>i. sandwich_rec (xs ! (i - 1)) (xs ! i) (xs ! (i + 1)))
       (filter (\<lambda>i. py_eq (to_address (xs ! (i - 1))) (to_address (xs ! (i + 1))) \<and>
                    (blockNumber (xs ! (i - 1)) = blockNumber (xs ! i) \<and>
                     blockNumber (xs ! i) = blockNumber (xs ! (i + 1))) \<and>
                    (gasPrice (xs ! (i - 1)) > gasPrice (xs ! i) \<and>
                     gasPrice (xs ! i) < gasPrice (xs ! (i + 1))))
          [1..<length xs - 1])"
  unfolding detect_sandwich_def sandwich_loop_scan
  by (simp add: conj_commute cong: conj_cong)

lemma upt_1_2: "[1..<2] = [1::nat]"
  by (simp add: upt_conv_Cons)

lemma detect_sandwich_three:
  "detect_sandwich [a, b, c] =
     (if py_eq (to_address a) (to_address c) \<and> blockNumber a = blockNumber b \<and>
         blockNumber b = blockNumber c \<and> gasPrice b < gasPrice a \<and> gasPrice b < gasPrice c
      then [sandwich_rec a b c] else [])"
  by (subst detect_sandwich_scan) (simp add: upt_1_2)

text \<open>
  C1. For every batch, \<open>detect_sandwich\<close> reports exactly the interior positions
  \<open>i\<close> (\<open>1 \<le> i \<le> len - 2\<close>) whose window \<open>(i-1, i, i+1)\<close> satisfies the three
  conditions (\<open>==\<close> of the \<open>to_address\<close> of prev and next, one block number for all
  three, gas price of the middle row strictly below both neighbours), one finding per
  such position, in ascending order of \<open>i\<close>; the finding of position \<open>i\<close> carries the
  hash of row \<open>i\<close> as victim, of row \<open>i - 1\<close> as front and of row \<open>i + 1\<close> as back. \<open>==\<close>
  is equality of strings, holds between \<open>None\<close> and \<open>None\<close>, and fails for NaN. For the
  example batch \<open>[A, B, C]\<close> exactly \<open>B\<close> is flagged with front \<open>A\<close> and back \<open>C\<close>;
  changing \<open>C\<close>'s target address or \<open>C\<close>'s block number leaves no finding.
\<close>

theorem detect_sandwich_characterisation:
  "detect_sandwich txs =
     map (\<lambda>i. \<lparr>block = blockNumber (txs ! (i - 1)),
                victim_hash = tx_hash (txs ! i),
                front_hash = tx_hash (txs ! (i - 1)),
                back_hash = tx_hash (txs ! (i + 1)),
                sw_to_address = to_address (txs ! (i - 1)),
                front_gas = gasPrice (txs ! (i - 1)),
                victim_gas = gasPrice (txs ! i),
                back_gas = gasPrice (txs ! (i + 1))\<rparr>)
       (filter (\<lambda>i. py_eq (to_address (txs ! (i - 1))) (to_address (txs ! (i + 1))) \<and>
                    (blockNumber (txs ! (i - 1)) = blockNumber (txs ! i) \<and>
                     blockNumber (txs ! i) = blockNumber (txs ! (i + 1))) \<and>
                    (gasPrice (txs ! (i - 1)) > gasPrice (txs ! i) \<and>
                     gasPrice (txs ! i) < gasPrice (txs ! (i + 1))))
          [1..<length txs - 1])
   \<and> py_eq (Str s) (Str s') = (s = s') \<and> py_eq PyNone PyNone
   \<and> \<not> py_eq PyNaN c \<and> \<not> py_eq c PyNaN
   \<and> \<not> py_eq (Str s) PyNone \<and> \<not> py_eq PyNone (Str s)
   \<and> detect_sandwich [txA, txB, txC] =
       [\<lparr>block = 1, victim_hash = tx_hash txB, front_hash = tx_hash txA,
         back_hash = tx_hash txC, sw_to_address = Str ''X'', front_gas = 5,
         victim_gas = 2, back_gas = 6\<rparr>]
   \<and> tx_hash txA = ''0xa'' \<and> tx_hash txB = ''0xb'' \<and> tx_hash txC = ''0xc''
   \<and> detect_sandwich [txA, txB, txC\<lparr>to_address := Str ''Z''\<rparr>] = []
   \<and> detect_sandwich [txA, txB, txC\<lparr>blockNumber := 2\<rparr>] = []"
proof -
  have e1: "detect_sandwich [txA, txB, txC] =
       [\<lparr>block = 1, victim_hash = tx_hash txB, front_hash = tx_hash txA,
         back_hash = tx_hash txC, sw_to_address = Str ''X'', front_gas = 5,
         victim_gas = 2, back_gas = 6\<rparr>]"
    by (simp add: detect_sandwich_three sandwich_rec_def txA_def txB_def txC_def)
  have e2: "detect_sandwich [txA, txB, txC\<lparr>to_address := Str ''Z''\<rparr>] = []"
    by (simp add: detect_sandwich_three txA_def txB_def txC_def)
  have e3: "detect_sandwich [txA, txB, txC\<lparr>blockNumber := 2\<rparr>] = []"
    by (simp add: detect_sandwich_three txA_def txB_def txC_def)
  have h: "tx_hash txA = ''0xa'' \<and> tx_hash txB = ''0xb'' \<and> tx_hash txC = ''0xc''"
    by (simp add: txA_def txB_def txC_def)
  have p: "\<not> py_eq PyNaN c \<and> \<not> py_eq c PyNaN \<and> \<not> py_eq (Str s) PyNone \<and> \<not> py_eq PyNone (Str s)"
    by (cases c) simp_all
  have scan: "detect_sandwich txs =
     map (\<lambda>i. \<lparr>block = blockNumber (txs ! (i - 1)),
                victim_hash = tx_hash (txs ! i),
                front_hash = tx_hash (txs ! (i - 1)),
                back_hash = tx_hash (txs ! (i + 1)),
                sw_to_address = to_address (txs ! (i - 1)),
                front_gas = gasPrice (txs ! (i - 1)),
                victim_gas = gasPrice (txs ! i),
                back_gas = gasPrice (txs ! (i + 1))\<rparr>)
       (filter (\<lambda>i. py_eq (to_address (txs ! (i - 1))) (to_address (txs ! (i + 1))) \<and>
                    (blockNumber (txs ! (i - 1)) = blockNumber (txs ! i) \<and>
                     blockNumber (txs ! i) = blockNumber (txs ! (i + 1))) \<and>
                    (gasPrice (txs ! (i - 1)) > gasPrice (txs ! i) \<and>
                     gasPrice (txs ! i) < gasPrice (txs ! (i + 1))))
          [1..<length txs - 1])"
    by (subst detect_sandwich_scan) (simp add: sandwich_rec_def)
  from scan e1 e2 e3 h p show ?thesis by simp
qed

lemma detect_sandwich_short_batch:
  "length txs \<le> 2 \<Longrightarrow> detect_sandwich txs = []"
  by (subst detect_sandwich_scan) simp

text \<open>
  C7. Whatever the field values, every finding of \<open>detect_sandwich\<close> is the record of
  a window whose middle position \<open>i\<close> is interior (\<open>0 < i < len - 1\<close>): the first and
  the last position of a batch are never the victim. With unique transaction hashes
  the victim's hash is therefore neither the first row's nor the last row's.
\<close>

theorem detect_sandwich_never_first_or_last:
  "f \<in> set (detect_sandwich txs) \<Longrightarrow>
     (\<exists>i. 0 < i \<and> i < length txs - 1 \<and>
          f = sandwich_rec (txs ! (i - 1)) (txs ! i) (txs ! (i + 1)) \<and>
          (distinct (map tx_hash txs) \<longrightarrow>
             victim_hash f \<noteq> tx_hash (txs ! 0) \<and>
             victim_hash f \<noteq> tx_hash (txs ! (length txs - 1))))"
proof -
  assume "f \<in> set (detect_sandwich txs)"
  then obtain i where i: "1 \<le> i" "i < length txs - 1"
    and f: "f = sandwich_rec (txs ! (i - 1)) (txs ! i) (txs ! (i + 1))"
    by (subst (asm) detect_sandwich_scan) auto
  have v: "victim_hash f = map tx_hash txs ! i"
    using i f by (simp add: sandwich_rec_def)
  have imp: "distinct (map tx_hash txs) \<longrightarrow>
          victim_hash f \<noteq> tx_hash (txs ! 0) \<and> victim_hash f \<noteq> tx_hash (txs ! (length txs - 1))"
  proof
    assume d: "distinct (map tx_hash txs)"
    have li: "i < length (map tx_hash txs)" and l0: "0 < length (map tx_hash txs)"
      and ll: "length txs - 1 < length (map tx_hash txs)"
      using i by auto
    have a: "map tx_hash txs ! i \<noteq> map tx_hash txs ! 0"
      using nth_eq_iff_index_eq [OF d li l0] i by linarith
    have b: "map tx_hash txs ! i \<noteq> map tx_hash txs ! (length txs - 1)"
      using nth_eq_iff_index_eq [OF d li ll] i by linarith
    have l0': "0 < length txs" and ll': "length txs - Suc 0 < length txs" and li': "i < length txs"
      using i by auto
    from a b v show "victim_hash f \<noteq> tx_hash (txs ! 0) \<and> victim_hash f \<noteq> tx_hash (txs ! (length txs - 1))"
      by (simp add: nth_map [OF l0'] nth_map [OF ll'] nth_map [OF li'])
  qed
  from i have p: "0 < i" by simp
  show ?thesis
    by (rule exI [of _ i]) (use p i(2) f imp in blast)
qed

theorem detect_sandwich_never_first_or_last_witness:
  "sandwich_rec txA txB txC \<in> set (detect_sandwich [txA, txB, txC]) \<and>
   distinct (map tx_hash [txA, txB, txC]) \<and>
   victim_hash (sandwich_rec txA txB txC) \<noteq> tx_hash ([txA, txB, txC] ! 0) \<and>
   victim_hash (sandwich_rec txA txB txC) \<noteq> tx_hash ([txA, txB, txC] ! (length [txA, txB, txC] - 1))"
proof -
  have m: "sandwich_rec txA txB txC \<in> set (detect_sandwich [txA, txB, txC])"
    by (simp add: detect_sandwich_three txA_def txB_def txC_def)
  have d: "distinct (map tx_hash [txA, txB, txC])"
    by (simp add: txA_def txB_def txC_def)
  from detect_sandwich_never_first_or_last [OF m] d m show ?thesis by blast
qed

section \<open>Contract creations in a window\<close>

text \<open>
  The frame \<open>detect_sandwich\<close> scans is the one \<open>fetch_recent_txs\<close> builds with
  \<open>pd.DataFrame(all_txs)\<close> from dictionaries whose \<open>to_address\<close> is \<open>tx.get('to')\<close>,
  \<open>None\<close> for a contract creation (lines 70-76, 93).
\<close>

lemma DataFrame_length: "length (DataFrame lib ds) = length ds"
  by (simp add: DataFrame_def Let_def)

lemma DataFrame_nth:
  "k < length ds \<Longrightarrow>
   DataFrame lib ds ! k =
     \<lparr>tx_hash = d_tx_hash (ds ! k),
      from_address = d_from_address (ds ! k),
      to_address =
        (case d_to_address (ds ! k) of
           Some s \<Rightarrow> Str s
         | None \<Rightarrow> if infer_string lib \<and> list_ex (\<lambda>d. d_to_address d \<noteq> None) ds
                   then PyNaN else PyNone),
      gasPrice = d_gasPrice (ds ! k),
      tx_value = d_value (ds ! k),
      blockNumber = d_blockNumber (ds ! k)\<rparr>"
  unfolding DataFrame_def Let_def by (rule nth_map)

lemma DataFrame_nth_fields:
  assumes "k < length ds"
  shows "tx_hash (DataFrame lib ds ! k) = d_tx_hash (ds ! k)"
    and "gasPrice (DataFrame lib ds ! k) = d_gasPrice (ds ! k)"
    and "blockNumber (DataFrame lib ds ! k) = d_blockNumber (ds ! k)"
    and "from_address (DataFrame lib ds ! k) = d_from_address (ds ! k)"
    and "tx_value (DataFrame lib ds ! k) = d_value (ds ! k)"
  unfolding DataFrame_nth [OF assms] by simp_all

lemma DataFrame_nth_None:
  assumes "k < length ds" and "d_to_address (ds ! k) = None"
  shows "to_address (DataFrame lib ds ! k) =
           (if infer_string lib \<and> (\<exists>d\<in>set ds. d_to_address d \<noteq> None) then PyNaN else PyNone)"
  unfolding DataFrame_nth [OF assms(1)] using assms(2) by (simp add: list_ex_iff)

lemma DataFrame_nth_Some:
  assumes "k < length ds" and "d_to_address (ds ! k) = Some s"
  shows "to_address (DataFrame lib ds ! k) = Str s"
  unfolding DataFrame_nth [OF assms(1)] using assms(2) by simp

lemma py_eq_left_Str_or_None: "py_eq a b \<Longrightarrow> a \<noteq> PyNaN"
  by (cases a; cases b) simp_all

lemma DataFrame_string_column:
  assumes "infer_string lib" and "\<exists>d\<in>set ds. d_to_address d \<noteq> None" and "k < length ds"
  shows "to_address (DataFrame lib ds ! k) \<noteq> PyNone"
proof (cases "d_to_address (ds ! k)")
  case None
  show ?thesis unfolding DataFrame_nth_None [OF assms(3) None] using assms(1,2) by simp
next
  case (Some s)
  show ?thesis unfolding DataFrame_nth_Some [OF assms(3) Some] by simp
qed

text \<open>
  Claim C10, as amended. Take any fetched batch and any interior position \<open>i\<close> whose
  two neighbours are contract creations (\<open>to_address\<close> is \<open>None\<close> in the dictionaries),
  in the same block as row \<open>i\<close> and each with a strictly higher gas price.
  \<^item> When the column is an object column (pandas does not infer a string dtype, or
    no transaction of the batch has an address), both cells are \<open>None\<close>, the
    comparison holds and the finding whose victim is row \<open>i\<close>, whose front and back are
    rows \<open>i - 1\<close> and \<open>i + 1\<close> and whose \<open>to_address\<close> is \<open>None\<close> is reported.
  \<^item> When pandas infers a string dtype and some transaction of the batch has an
    address, both cells are NaN, which is not equal to itself, and no finding of the
    batch has a missing \<open>to_address\<close>.
\<close>

theorem creation_pair_window:
  assumes "0 < i" and "i < length ds - 1"
    and "d_to_address (ds ! (i - 1)) = None" and "d_to_address (ds ! (i + 1)) = None"
    and "d_blockNumber (ds ! (i - 1)) = d_blockNumber (ds ! i)"
    and "d_blockNumber (ds ! i) = d_blockNumber (ds ! (i + 1))"
    and "d_gasPrice (ds ! i) < d_gasPrice (ds ! (i - 1))"
    and "d_gasPrice (ds ! i) < d_gasPrice (ds ! (i + 1))"
  shows "(\<not> infer_string lib \<or> (\<forall>d\<in>set ds. d_to_address d = None) \<longrightarrow>
           \<lparr>block = d_blockNumber (ds ! (i - 1)),
            victim_hash = d_tx_hash (ds ! i),
            front_hash = d_tx_hash (ds ! (i - 1)),
            back_hash = d_tx_hash (ds ! (i + 1)),
            sw_to_address = PyNone,
            front_gas = d_gasPrice (ds ! (i - 1)),
            victim_gas = d_gasPrice (ds ! i),
            back_gas = d_gasPrice (ds ! (i + 1))\<rparr>
           \<in> set (detect_sandwich (DataFrame lib ds))) \<and>
         (infer_string lib \<and> (\<exists>d\<in>set ds. d_to_address d \<noteq> None) \<longrightarrow>
           to_address (DataFrame lib ds ! (i - 1)) = PyNaN \<and>
           to_address (DataFrame lib ds ! (i + 1)) = PyNaN \<and>
           (\<forall>f\<in>set (detect_sandwich (DataFrame lib ds)).
              sw_to_address f \<noteq> PyNone \<and> sw_to_address f \<noteq> PyNaN))"
proof (intro conjI impI)
  let ?df = "DataFrame lib ds"
  from assms(1,2) have k: "i - 1 < length ds" "i < length ds" "i + 1 < length ds" by auto
  assume obj: "\<not> infer_string lib \<or> (\<forall>d\<in>set ds. d_to_address d = None)"
  then have col: "\<not> (infer_string lib \<and> (\<exists>d\<in>set ds. d_to_address d \<noteq> None))"
    by auto
  have r: "to_address (?df ! (i - 1)) = PyNone"
    unfolding DataFrame_nth_None [OF k(1) assms(3)] using col by simp
  have s: "to_address (?df ! (i + 1)) = PyNone"
    unfolding DataFrame_nth_None [OF k(3) assms(4)] using col by simp
  note m = DataFrame_nth_fields [OF k(1)] DataFrame_nth_fields [OF k(2)]
    DataFrame_nth_fields [OF k(3)]
  have pos: "i \<in> set [1..<length ?df - 1]"
    using assms(1,2) by (simp add: DataFrame_length)
  have rec: "sandwich_rec (?df ! (i - 1)) (?df ! i) (?df ! (i + 1)) =
      \<lparr>block = d_blockNumber (ds ! (i - 1)), victim_hash = d_tx_hash (ds ! i),
       front_hash = d_tx_hash (ds ! (i - 1)), back_hash = d_tx_hash (ds ! (i + 1)),
       sw_to_address = PyNone, front_gas = d_gasPrice (ds ! (i - 1)),
       victim_gas = d_gasPrice (ds ! i), back_gas = d_gasPrice (ds ! (i + 1))\<rparr>"
    unfolding sandwich_rec_def r s m ..
  have cond: "py_eq (to_address (?df ! (i - 1))) (to_address (?df ! (i + 1))) \<and>
      (blockNumber (?df ! (i - 1)) = blockNumber (?df ! i) \<and>
       blockNumber (?df ! i) = blockNumber (?df ! (i + 1))) \<and>
      (gasPrice (?df ! (i - 1)) > gasPrice (?df ! i) \<and>
       gasPrice (?df ! i) < gasPrice (?df ! (i + 1)))"
    unfolding r s m using assms(5-8) by simp
  have "sandwich_rec (?df ! (i - 1)) (?df ! i) (?df ! (i + 1)) \<in> set (detect_sandwich ?df)"
    using pos cond by (subst detect_sandwich_scan) (simp del: upt_Suc)
  then show "\<lparr>block = d_blockNumber (ds ! (i - 1)), victim_hash = d_tx_hash (ds ! i),
       front_hash = d_tx_hash (ds ! (i - 1)), back_hash = d_tx_hash (ds ! (i + 1)),
       sw_to_address = PyNone, front_gas = d_gasPrice (ds ! (i - 1)),
       victim_gas = d_gasPrice (ds ! i), back_gas = d_gasPrice (ds ! (i + 1))\<rparr>
      \<in> set (detect_sandwich ?df)"
    unfolding rec .
next
  from assms(1,2) have k: "i - 1 < length ds" "i + 1 < length ds" by auto
  assume str: "infer_string lib \<and> (\<exists>d\<in>set ds. d_to_address d \<noteq> None)"
  show "to_address (DataFrame lib ds ! (i - 1)) = PyNaN"
    unfolding DataFrame_nth_None [OF k(1) assms(3)] using str by simp
  show "to_address (DataFrame lib ds ! (i + 1)) = PyNaN"
    unfolding DataFrame_nth_None [OF k(2) assms(4)] using str by simp
  show "\<forall>f\<in>set (detect_sandwich (DataFrame lib ds)).
          sw_to_address f \<noteq> PyNone \<and> sw_to_address f \<noteq> PyNaN"
  proof
    fix f assume "f \<in> set (detect_sandwich (DataFrame lib ds))"
    then obtain j where j: "1 \<le> j" "j < length ds - 1"
      and e: "py_eq (to_address (DataFrame lib ds ! (j - 1))) (to_address (DataFrame lib ds ! (j + 1)))"
      and f: "f = sandwich_rec (DataFrame lib ds ! (j - 1)) (DataFrame lib ds ! j)
                    (DataFrame lib ds ! (j + 1))"
      by (subst (asm) detect_sandwich_scan) (auto simp: DataFrame_length)
    from j have jl: "j - 1 < length ds" by auto
    have a: "sw_to_address f = to_address (DataFrame lib ds ! (j - 1))"
      unfolding f by (simp add: sandwich_rec_def)
    have "to_address (DataFrame lib ds ! (j - 1)) \<noteq> PyNone"
      using DataFrame_string_column [OF _ _ jl] str by blast
    moreover have "to_address (DataFrame lib ds ! (j - 1)) \<noteq> PyNaN"
      using py_eq_left_Str_or_None [OF e] .
    ultimately show "sw_to_address f \<noteq> PyNone \<and> sw_to_address f \<noteq> PyNaN"
      unfolding a by simp
  qed
qed

text \<open>The frames built from the two fetched test batches.\<close>

lemma creation_dicts_frame:
  "DataFrame toy_libs creation_dicts =
     [mk_tx ''0xc1'' PyNaN 8 3, mk_tx ''0xc2'' (Str ''Y'') 4 3, mk_tx ''0xc3'' PyNaN 7 3]"
  "DataFrame object_libs creation_dicts =
     [mk_tx ''0xc1'' PyNone 8 3, mk_tx ''0xc2'' (Str ''Y'') 4 3, mk_tx ''0xc3'' PyNone 7 3]"
  "DataFrame toy_libs creations_only =
     [mk_tx ''0xc1'' PyNone 8 3, mk_tx ''0xc2'' PyNone 4 3, mk_tx ''0xc3'' PyNone 7 3]"
  by (simp_all add: DataFrame_def creation_dicts_def creations_only_def mk_dict_def mk_tx_def
        toy_libs_def object_libs_def)

text \<open>
  Claim C10 as stated does not hold for every batch. With string inference, the
  fetched batch of a creation (gas 8), a transfer to \<open>Y\<close> (gas 4) and a creation
  (gas 7), all in block 3, meets the claim's premises, but the frame holds NaN in
  both outer cells and \<open>detect_sandwich\<close> reports nothing.
\<close>

theorem creation_pair_string_column_counterexample:
  "infer_string toy_libs \<and>
   map d_to_address creation_dicts = [None, Some ''Y'', None] \<and>
   map d_blockNumber creation_dicts = [3, 3, 3] \<and>
   map d_gasPrice creation_dicts = [8, 4, 7] \<and>
   map to_address (DataFrame toy_libs creation_dicts) = [PyNaN, Str ''Y'', PyNaN] \<and>
   detect_sandwich (DataFrame toy_libs creation_dicts) = []"
  by (simp add: creation_dicts_frame detect_sandwich_three)
     (simp add: creation_dicts_def mk_dict_def mk_tx_def toy_libs_def)


text \<open>
  Claim C10, the amended statement at position 1 of three fetched batches: two
  creations around a transfer in an object column, three creations in a row under
  string inference (the finding is reported in both), and two creations around a
  transfer under string inference (both cells are NaN).
\<close>

theorem creation_pair_window_witness:
  "\<lparr>block = 3, victim_hash = ''0xc2'', front_hash = ''0xc1'', back_hash = ''0xc3'',
    sw_to_address = PyNone, front_gas = 8, victim_gas = 4, back_gas = 7\<rparr>
     \<in> set (detect_sandwich (DataFrame object_libs creation_dicts)) \<and>
   \<lparr>block = 3, victim_hash = ''0xc2'', front_hash = ''0xc1'', back_hash = ''0xc3'',
    sw_to_address = PyNone, front_gas = 8, victim_gas = 4, back_gas = 7\<rparr>
     \<in> set (detect_sandwich (DataFrame toy_libs creations_only)) \<and>
   to_address (DataFrame toy_libs creation_dicts ! 0) = PyNaN \<and>
   to_address (DataFrame toy_libs creation_dicts ! 2) = PyNaN"
proof -
  have d: "(0::nat) < 1" "(1::nat) < length creation_dicts - 1"
    "d_to_address (creation_dicts ! (1 - 1)) = None"
    "d_to_address (creation_dicts ! (1 + 1)) = None"
    "d_blockNumber (creation_dicts ! (1 - 1)) = d_blockNumber (creation_dicts ! 1)"
    "d_blockNumber (creation_dicts ! 1) = d_blockNumber (creation_dicts ! (1 + 1))"
    "d_gasPrice (creation_dicts ! 1) < d_gasPrice (creation_dicts ! (1 - 1))"
    "d_gasPrice (creation_dicts ! 1) < d_gasPrice (creation_dicts ! (1 + 1))"
    by (simp_all add: creation_dicts_def mk_dict_def)
  have e: "(0::nat) < 1" "(1::nat) < length creations_only - 1"
    "d_to_address (creations_only ! (1 - 1)) = None"
    "d_to_address (creations_only ! (1 + 1)) = None"
    "d_blockNumber (creations_only ! (1 - 1)) = d_blockNumber (creations_only ! 1)"
    "d_blockNumber (creations_only ! 1) = d_blockNumber (creations_only ! (1 + 1))"
    "d_gasPrice (creations_only ! 1) < d_gasPrice (creations_only ! (1 - 1))"
    "d_gasPrice (creations_only ! 1) < d_gasPrice (creations_only ! (1 + 1))"
    by (simp_all add: creations_only_def mk_dict_def)
  have v: "d_blockNumber (creation_dicts ! (1 - 1)) = 3" "d_tx_hash (creation_dicts ! 1) = ''0xc2''"
    "d_tx_hash (creation_dicts ! (1 - 1)) = ''0xc1''" "d_tx_hash (creation_dicts ! (1 + 1)) = ''0xc3''"
    "d_gasPrice (creation_dicts ! (1 - 1)) = 8" "d_gasPrice (creation_dicts ! 1) = 4"
    "d_gasPrice (creation_dicts ! (1 + 1)) = 7"
    by (simp_all add: creation_dicts_def mk_dict_def)
  have w: "d_blockNumber (creations_only ! (1 - 1)) = 3" "d_tx_hash (creations_only ! 1) = ''0xc2''"
    "d_tx_hash (creations_only ! (1 - 1)) = ''0xc1''" "d_tx_hash (creations_only ! (1 + 1)) = ''0xc3''"
    "d_gasPrice (creations_only ! (1 - 1)) = 8" "d_gasPrice (creations_only ! 1) = 4"
    "d_gasPrice (creations_only ! (1 + 1)) = 7"
    by (simp_all add: creations_only_def mk_dict_def)
  have o: "\<not> infer_string object_libs" "infer_string toy_libs"
    by (simp_all add: object_libs_def toy_libs_def)
  have a: "\<forall>d\<in>set creations_only. d_to_address d = None"
    by (simp add: creations_only_def mk_dict_def)
  have b: "\<exists>d\<in>set creation_dicts. d_to_address d \<noteq> None"
    by (simp add: creation_dicts_def mk_dict_def)
  have z: "(1::nat) - 1 = 0" "(1::nat) + 1 = 2" by simp_all
  note t1 = creation_pair_window [of 1 creation_dicts object_libs, OF d, unfolded v]
  note t2 = creation_pair_window [of 1 creations_only toy_libs, OF e, unfolded w]
  note t3 = creation_pair_window [of 1 creation_dicts toy_libs, OF d, unfolded z]
  from t1 o(1) have 1: "\<lparr>block = 3, victim_hash = ''0xc2'', front_hash = ''0xc1'',
      back_hash = ''0xc3'', sw_to_address = PyNone, front_gas = 8, victim_gas = 4,
      back_gas = 7\<rparr> \<in> set (detect_sandwich (DataFrame object_libs creation_dicts))"
    by blast
  from t2 a have 2: "\<lparr>block = 3, victim_hash = ''0xc2'', front_hash = ''0xc1'',
      back_hash = ''0xc3'', sw_to_address = PyNone, front_gas = 8, victim_gas = 4,
      back_gas = 7\<rparr> \<in> set (detect_sandwich (DataFrame toy_libs creations_only))"
    by blast
  from t3 o(2) b have 3: "to_address (DataFrame toy_libs creation_dicts ! 0) = PyNaN \<and>
      to_address (DataFrame toy_libs creation_dicts ! 2) = PyNaN"
    by blast
  from 1 2 3 show ?thesis by blast
qed

section \<open>The clusterer and the frame\<close>

lemma zip_as_positions:
  "length ms = length xs \<Longrightarrow> zip xs ms = map (\<lambda>i. (xs ! i, ms ! i)) [0..<length xs]"
  by (rule nth_equalityI) simp_all

lemma mask_select_positions:
  assumes "length ms = length xs"
  shows "map fst (filter snd (zip xs ms)) = map (\<lambda>i. xs ! i) (filter (\<lambda>i. ms ! i) [0..<length xs])"
  by (simp add: zip_as_positions [OF assms] filter_map comp_def)

lemma mask_select_map:
  assumes "length ls = length xs"
  shows "map fst (filter snd (zip xs (map P ls))) =
         map (\<lambda>i. xs ! i) (filter (\<lambda>i. P (ls ! i)) [0..<length xs])"
proof -
  have "filter (\<lambda>i. map P ls ! i) [0..<length xs] = filter (\<lambda>i. P (ls ! i)) [0..<length xs]"
    by (rule filter_cong) (simp_all add: assms)
  moreover have "length (map P ls) = length xs" using assms by simp
  ultimately show ?thesis by (simp add: mask_select_positions)
qed

lemma dbscan_cluster_via_labels:
  "dbscan_cluster lib txs =
     (if rows txs = [] then Inl KeyError
      else case dbscan_labels lib (rows txs) of
             Inl e \<Rightarrow> Inl e
           | Inr lbls \<Rightarrow>
               if length lbls \<noteq> length (rows txs) then Inl ValueError
               else Inr (bool_index (txs\<lparr>cluster := Some lbls\<rparr>) (map (\<lambda>l. l \<noteq> - 1) lbls),
                         txs\<lparr>cluster := Some lbls\<rparr>))"
  by (simp add: dbscan_cluster_def dbscan_labels_def Let_def split: sum.splits)

lemma dbscan_cluster_Inr:
  assumes "dbscan_cluster lib txs = Inr (clusters, txs')"
  shows "\<exists>lbls. rows txs \<noteq> [] \<and> dbscan_labels lib (rows txs) = Inr lbls \<and>
           length lbls = length (rows txs) \<and>
           txs' = txs\<lparr>cluster := Some lbls\<rparr> \<and>
           clusters = bool_index txs' (map (\<lambda>l. l \<noteq> - 1) lbls)"
  using assms unfolding dbscan_cluster_via_labels
  by (auto split: if_splits sum.splits)

text \<open>
  C8. For every batch on which \<open>dbscan_cluster\<close> returns, the returned frame holds
  exactly the rows whose label is not the noise label \<open>-1\<close>, in frame order, each with
  its label in the \<open>cluster\<close> column: a row labelled noise is absent from the output
  and no row of the output carries \<open>-1\<close>.
\<close>

theorem dbscan_cluster_excludes_noise:
  assumes "dbscan_cluster lib txs = Inr (clusters, txs')"
  shows "\<exists>lbls. dbscan_labels lib (rows txs) = Inr lbls \<and>
           length lbls = length (rows txs) \<and>
           rows clusters =
             map (\<lambda>i. rows txs ! i) (filter (\<lambda>i. lbls ! i \<noteq> - 1) [0..<length (rows txs)]) \<and>
           cluster clusters =
             Some (map (\<lambda>i. lbls ! i) (filter (\<lambda>i. lbls ! i \<noteq> - 1) [0..<length (rows txs)])) \<and>
           (\<exists>ids. cluster clusters = Some ids \<and> length ids = length (rows clusters) \<and>
                  - 1 \<notin> set ids)"
proof -
  from dbscan_cluster_Inr [OF assms] obtain lbls where
    l: "dbscan_labels lib (rows txs) = Inr lbls"
    and len: "length lbls = length (rows txs)"
    and t': "txs' = txs\<lparr>cluster := Some lbls\<rparr>"
    and c: "clusters = bool_index txs' (map (\<lambda>l. l \<noteq> - 1) lbls)"
    by blast
  have rw: "rows clusters =
      map (\<lambda>i. rows txs ! i) (filter (\<lambda>i. lbls ! i \<noteq> - 1) [0..<length (rows txs)])"
    unfolding c t' bool_index_def
    using mask_select_map [OF len, where P = "\<lambda>l. l \<noteq> - 1"] by simp
  have cl: "cluster clusters =
      Some (map (\<lambda>i. lbls ! i) (filter (\<lambda>i. lbls ! i \<noteq> - 1) [0..<length (rows txs)]))"
    unfolding c t' bool_index_def
    using mask_select_map [where P = "\<lambda>l. l \<noteq> - 1" and xs = lbls and ls = lbls, OF refl] len
    by simp
  have "\<exists>ids. cluster clusters = Some ids \<and> length ids = length (rows clusters) \<and>
                - 1 \<notin> set ids"
    unfolding cl rw by auto
  with l len rw cl show ?thesis by blast
qed

lemma dbscan_abc:
  "dbscan_cluster toy_libs abc_frame =
     Inr (\<lparr>rows = [txA, txC], cluster = Some [0, 0]\<rparr>,
          \<lparr>rows = [txA, txB, txC], cluster = Some [0, - 1, 0]\<rparr>)"
  by (simp add: dbscan_cluster_def toy_libs_def abc_frame_def bool_index_def txA_def txB_def txC_def)

theorem dbscan_cluster_excludes_noise_witness:
  "dbscan_cluster toy_libs abc_frame =
     Inr (\<lparr>rows = [txA, txC], cluster = Some [0, 0]\<rparr>,
          \<lparr>rows = [txA, txB, txC], cluster = Some [0, - 1, 0]\<rparr>) \<and>
   dbscan_labels toy_libs (rows abc_frame) = Inr [0, - 1, 0] \<and>
   (\<exists>ids. cluster \<lparr>rows = [txA, txC], cluster = Some [0, 0]\<rparr> = Some ids \<and>
          length ids = length (rows \<lparr>rows = [txA, txC], cluster = Some [0, 0]\<rparr>) \<and>
          - 1 \<notin> set ids)"
proof -
  have l: "dbscan_labels toy_libs (rows abc_frame) = Inr [0, - 1, 0]"
    by (simp add: dbscan_labels_def toy_libs_def abc_frame_def txA_def txB_def txC_def)
  from dbscan_cluster_excludes_noise [OF dbscan_abc]
  have "\<exists>ids. cluster \<lparr>rows = [txA, txC], cluster = Some [0, 0]\<rparr> = Some ids \<and>
          length ids = length (rows \<lparr>rows = [txA, txC], cluster = Some [0, 0]\<rparr>) \<and>
          - 1 \<notin> set ids"
    by blast
  with dbscan_abc l show ?thesis by blast
qed


text \<open>
  Claim C4. \<open>dbscan_cluster\<close> is not pure in its batch. Line 126,
  \<open>txs['cluster'] = lbls\<close>, assigns to the frame the caller passed: whenever the call
  returns on a frame without a \<open>cluster\<close> column, the caller's frame differs from
  what it was, for it now holds the labels in a new \<open>cluster\<close> column; its rows are
  the ones it had.
\<close>

theorem dbscan_cluster_writes_input:
  assumes "dbscan_cluster lib \<lparr>rows = txs, cluster = None\<rparr> = Inr (clusters, txs')"
  shows "txs' \<noteq> \<lparr>rows = txs, cluster = None\<rparr> \<and>
         rows txs' = txs \<and>
         (\<exists>lbls. dbscan_labels lib txs = Inr lbls \<and> length lbls = length txs \<and>
                 cluster txs' = Some lbls)"
proof -
  from dbscan_cluster_Inr [OF assms] obtain lbls where
    l: "dbscan_labels lib txs = Inr lbls"
    and len: "length lbls = length txs"
    and t': "txs' = \<lparr>rows = txs, cluster = None\<rparr>\<lparr>cluster := Some lbls\<rparr>"
    by auto
  have a: "cluster txs' = Some lbls" and b: "rows txs' = txs"
    unfolding t' by simp_all
  have c: "txs' \<noteq> \<lparr>rows = txs, cluster = None\<rparr>"
  proof
    assume "txs' = \<lparr>rows = txs, cluster = None\<rparr>"
    then have "cluster txs' = None" by simp
    with a show False by simp
  qed
  from a b c l len show ?thesis by blast
qed

text \<open>
  Claim C4, on a frame of two rows: fewer rows than \<open>min_samples\<close>, so both are noise
  and the returned frame is empty, yet the caller's frame has gained the column.
\<close>

theorem dbscan_cluster_writes_input_witness:
  "dbscan_cluster toy_libs \<lparr>rows = [txP, txQ], cluster = None\<rparr> =
     Inr (\<lparr>rows = [], cluster = Some []\<rparr>,
          \<lparr>rows = [txP, txQ], cluster = Some [- 1, - 1]\<rparr>) \<and>
   \<lparr>rows = [txP, txQ], cluster = Some [- 1, - 1]\<rparr> \<noteq> \<lparr>rows = [txP, txQ], cluster = None\<rparr> \<and>
   rows \<lparr>rows = [txP, txQ], cluster = Some [- 1, - 1]\<rparr> = [txP, txQ]"
proof -
  have e: "dbscan_cluster toy_libs \<lparr>rows = [txP, txQ], cluster = None\<rparr> =
     Inr (\<lparr>rows = [], cluster = Some []\<rparr>,
          \<lparr>rows = [txP, txQ], cluster = Some [- 1, - 1]\<rparr>)"
    by (simp add: dbscan_cluster_def toy_libs_def bool_index_def txP_def txQ_def mk_tx_def)
  from dbscan_cluster_writes_input [OF e]
  have "\<lparr>rows = [txP, txQ], cluster = Some [- 1, - 1]\<rparr> \<noteq> \<lparr>rows = [txP, txQ], cluster = None\<rparr> \<and>
        rows \<lparr>rows = [txP, txQ], cluster = Some [- 1, - 1]\<rparr> = [txP, txQ]"
    by blast
  with e show ?thesis by blast
qed

section \<open>The anomaly scorer\<close>

lemma seeded_toy_libs: "seeded toy_libs"
  by (simp add: seeded_def toy_libs_def)

lemma detect_anomalies_labels:
  "txs \<noteq> [] \<Longrightarrow>
   detect_anomalies lib g txs =
     (case anomaly_labels lib g txs of
        (Inl e, g') \<Rightarrow> (Inl e, g')
      | (Inr labels, g') \<Rightarrow>
          if length labels \<noteq> length txs then (Inl ValueError, g')
          else (Inr (map fst (filter (\<lambda>(t, l). l = - 1) (zip txs labels))), g'))"
  by (simp add: detect_anomalies_def anomaly_labels_def Let_def split: sum.splits)

lemma anomaly_labels_seeded:
  assumes "seeded lib"
  shows "fst (anomaly_labels lib g1 txs) = fst (anomaly_labels lib g2 txs)"
    and "snd (anomaly_labels lib g1 txs) = g1"
proof -
  from assms have l: "fst (IsolationForest_fit_predict lib (1 / 100) (Some 42) g1 X) =
                      fst (IsolationForest_fit_predict lib (1 / 100) (Some 42) g2 X)"
    and s: "snd (IsolationForest_fit_predict lib (1 / 100) (Some 42) g1 X) = g1" for X
    unfolding seeded_def by blast+
  show "fst (anomaly_labels lib g1 txs) = fst (anomaly_labels lib g2 txs)"
    using l by (simp add: anomaly_labels_def split: sum.splits)
  show "snd (anomaly_labels lib g1 txs) = g1"
    using s by (simp add: anomaly_labels_def split: sum.splits)
qed

text \<open>
  C5. \<open>detect_anomalies\<close> passes the fixed seed 42 to the forest. With a library whose
  seeded fit does not depend on the global generator, two runs on the same batch give
  the same result whatever the generator's state, the run leaves that state as it
  found it, and a second run right after the first returns the same outliers.
\<close>

theorem detect_anomalies_two_runs:
  assumes "seeded lib"
  shows "fst (detect_anomalies lib g1 txs) = fst (detect_anomalies lib g2 txs) \<and>
         snd (detect_anomalies lib g1 txs) = g1 \<and>
         detect_anomalies lib (snd (detect_anomalies lib g1 txs)) txs = detect_anomalies lib g1 txs"
proof (cases "txs = []")
  case True
  then show ?thesis by (simp add: detect_anomalies_def)
next
  case False
  note s = anomaly_labels_seeded [OF assms]
  have a: "fst (detect_anomalies lib g1 txs) = fst (detect_anomalies lib g2 txs)"
    using s(1) [of g1 txs g2]
    by (cases "anomaly_labels lib g1 txs"; cases "anomaly_labels lib g2 txs")
       (auto simp: detect_anomalies_labels [OF False] split: sum.splits)
  have b: "snd (detect_anomalies lib g1 txs) = g1"
    using s(2) [of g1 txs]
    by (cases "anomaly_labels lib g1 txs")
       (auto simp: detect_anomalies_labels [OF False] split: sum.splits)
  from a b show ?thesis by simp
qed

theorem detect_anomalies_two_runs_witness:
  "seeded toy_libs \<and>
   detect_anomalies toy_libs 7 outlier_batch = (Inr [mk_tx ''0xd'' (Str ''X'') 250 1], 7) \<and>
   fst (detect_anomalies toy_libs 7 outlier_batch) = fst (detect_anomalies toy_libs 8 outlier_batch)"
proof -
  have e: "detect_anomalies toy_libs 7 outlier_batch = (Inr [mk_tx ''0xd'' (Str ''X'') 250 1], 7)"
    by (simp add: detect_anomalies_def toy_libs_def outlier_batch_def txA_def txC_def mk_tx_def)
  from detect_anomalies_two_runs [OF seeded_toy_libs, of 7 outlier_batch 8] e seeded_toy_libs
  show ?thesis by simp
qed


section \<open>The empty batch\<close>

text \<open>
  On an empty batch \<open>run_dashboard\<close> puts nothing on the page: no no-data notice is
  reported.
\<close>

theorem run_dashboard_empty_counterexample:
  "rendered (run_dashboard toy_libs 0 []) = [] \<and> raised (run_dashboard toy_libs 0 []) = None"
  by (simp add: run_dashboard_def)

text \<open>
  C6, as the code has it. On an empty batch \<open>run_dashboard\<close> returns at once: nothing
  is rendered, no exception is raised, the frame and the generator are untouched.
  No statistic is computed and no detector that reads a column is run: each of them
  raises \<open>KeyError\<close> on the empty frame, and the run raises nothing.
\<close>

theorem run_dashboard_empty:
  "run_dashboard lib g [] =
     \<lparr>rendered = [], raised = None, txs_after = \<lparr>rows = [], cluster = None\<rparr>, rng_after = g\<rparr> \<and>
   high_gas lib m [] = Inl KeyError \<and>
   detect_sandwich [] = [] \<and>
   detect_anomalies lib g [] = (Inl KeyError, g) \<and>
   dbscan_cluster lib \<lparr>rows = [], cluster = None\<rparr> = Inl KeyError"
  by (simp add: run_dashboard_def high_gas_def detect_sandwich_short_batch
      detect_anomalies_def dbscan_cluster_def)

end
